theory Spec2Isabelle
  imports Complex_Main "HOL-Library.AList" "HOL-Library.Char_ord" "HOL-Library.List_Lexorder"
begin

section \<open>Conventions of the embedding\<close>

text \<open>
  The program is \<^verbatim>\<open>src/app.py\<close>: a FastAPI service that keeps five CSV tables per
  calendar day and an order counter in a text file.

  \<^item> A Python \<^verbatim>\<open>str\<close> is a \<open>string\<close>; the text is read as ASCII, so \<^verbatim>\<open>strip\<close>,
    \<^verbatim>\<open>upper\<close>, \<^verbatim>\<open>lower\<close>, \<^verbatim>\<open>isdigit\<close> and \<^verbatim>\<open>isalpha\<close> are the ASCII functions.
  \<^item> A Python \<^verbatim>\<open>float\<close> is idealised as an exact rational (\<open>rat\<close>): sums, products and
    comparisons are exact, and NaN and the infinities are left out.
  \<^item> A cell of a numeric CSV column is modelled by what \<^verbatim>\<open>float(cell or 0)\<close> makes of it:
    \<open>Some x\<close> for the number read (an empty cell reads as 0), \<open>None\<close> where
    \<^verbatim>\<open>float\<close> raises \<^verbatim>\<open>ValueError\<close>.
  \<^item> \<^verbatim>\<open>gen_id()\<close> and \<^verbatim>\<open>today_str()\<close> read the environment; their results are
    arguments of the functions that call them.
  \<^item> An exception is a value of \<open>error\<close>; a handler returns \<open>error + 'a\<close>.
\<close>

datatype error =
    HTTPException nat   \<comment> \<open>\<^verbatim>\<open>raise HTTPException(status, ...)\<close>\<close>
  | ValueError          \<comment> \<open>an uncaught \<^verbatim>\<open>ValueError\<close> of \<^verbatim>\<open>float\<close> or \<^verbatim>\<open>int\<close>\<close>
  | FileExistsError     \<comment> \<open>\<^verbatim>\<open>mkdir\<close> on a path that is a regular file\<close>

section \<open>Strings\<close>

definition isspace :: "char \<Rightarrow> bool" where
  "isspace c = (let n = (of_char c :: nat)
                in n = 32 \<or> (9 \<le> n \<and> n \<le> 13) \<or> (28 \<le> n \<and> n \<le> 31))"

definition strip :: "string \<Rightarrow> string" where
  "strip s = rev (dropWhile isspace (rev (dropWhile isspace s)))"

definition upper_char :: "char \<Rightarrow> char" where
  "upper_char c = (let n = (of_char c :: nat)
                   in if 97 \<le> n \<and> n \<le> 122 then char_of (n - 32) else c)"

definition lower_char :: "char \<Rightarrow> char" where
  "lower_char c = (let n = (of_char c :: nat)
                   in if 65 \<le> n \<and> n \<le> 90 then char_of (n + 32) else c)"

definition upper :: "string \<Rightarrow> string" where
  "upper s = map upper_char s"

definition lower :: "string \<Rightarrow> string" where
  "lower s = map lower_char s"




text \<open>\<^verbatim>\<open>x or ""\<close> on an optional string.\<close>

definition or_empty :: "string option \<Rightarrow> string" where
  "or_empty x = (case x of None \<Rightarrow> [] | Some s \<Rightarrow> s)"

text \<open>\<^verbatim>\<open>f"{d}"\<close> for a one-digit number \<open>d\<close>.\<close>

definition digit_str :: "nat \<Rightarrow> string" where
  "digit_str d = [char_of (48 + d)]"

section \<open>Tables\<close>

type_synonym num_cell = "rat option"

record ready_product =
  rp_id :: string
  rp_name :: string
  rp_category :: string
  rp_item_category :: string
  rp_code :: string
  rp_unit :: string
  rp_unit_cost :: num_cell
  rp_price :: num_cell
  rp_quantity :: num_cell
  rp_threshold :: num_cell

section \<open>Code assigner\<close>

text \<open>
  The fallback loop of \<^verbatim>\<open>_generate_ready_code\<close>:
  \<^verbatim>\<open>
    idx = 0
    while True:
        for d in range(1, 10):
            extra = chr(ord("A") + (idx % 26))
            code = f"{d}{l2}{extra}"
            if code not in existing:
                return code
        idx += 1
  \<close>
  The \<^verbatim>\<open>while True\<close> has no exit but the \<^verbatim>\<open>return\<close>, so the model is a partial
  function: \<open>None\<close> is the loop that never returns.
\<close>

definition first_unused :: "string set \<Rightarrow> string list \<Rightarrow> string option" where
  "first_unused existing candidates = find (\<lambda>code. code \<notin> existing) candidates"

definition fallback_candidates :: "string \<Rightarrow> nat \<Rightarrow> string list" where
  "fallback_candidates l2 idx =
     map (\<lambda>d. digit_str d @ l2 @ [char_of (65 + idx mod 26)]) [1..<10]"

partial_function (option) fallback_search :: "string \<Rightarrow> string set \<Rightarrow> nat \<Rightarrow> string option" where
  "fallback_search l2 existing idx =
     (case first_unused existing (fallback_candidates l2 idx) of
        Some code \<Rightarrow> Some code
      | None \<Rightarrow> fallback_search l2 existing (idx + 1))"

declare fallback_search.simps [code]

definition first_or_X :: "string \<Rightarrow> string" where
  "first_or_X s = upper (if take 1 s = [] then ''X'' else take 1 s)"

text \<open>
  \<^verbatim>\<open>l2\<close> and \<^verbatim>\<open>l3\<close> of \<^verbatim>\<open>_generate_ready_code\<close>: the first character of the
  trimmed category (of the trimmed name when the category is empty) and the first
  character of the trimmed name, upper-cased, \<^verbatim>\<open>"X"\<close> for an empty text.
\<close>

definition letter2 :: "string \<Rightarrow> string \<Rightarrow> string" where
  "letter2 name item_category =
     (let base_cat = strip item_category;
          base_name = strip name;
          base_cat = (if base_cat = [] then base_name else base_cat)
      in first_or_X base_cat)"

definition letter3 :: "string \<Rightarrow> string" where
  "letter3 name = first_or_X (strip name)"

definition existing_codes :: "ready_product list \<Rightarrow> string set" where
  "existing_codes rows = set (map (\<lambda>r. upper (rp_code r)) rows)"

definition suffix_candidates :: "string \<Rightarrow> string list" where
  "suffix_candidates suffix = map (\<lambda>d. digit_str d @ suffix) [1..<10]"

definition generate_ready_code :: "string \<Rightarrow> string \<Rightarrow> ready_product list \<Rightarrow> string option" where
  "generate_ready_code name item_category rows =
     (let l2 = letter2 name item_category;
          l3 = letter3 name;
          suffix = l2 @ l3;
          existing = existing_codes rows
      in case first_unused existing (suffix_candidates suffix) of
           Some code \<Rightarrow> Some code
         | None \<Rightarrow> fallback_search l2 existing 0)"

text \<open>The format the specification gives for a code: \<^verbatim>\<open>^[1-9][A-Z]{2}$\<close>.\<close>

definition spec_code_format :: "string \<Rightarrow> bool" where
  "spec_code_format c =
     (case c of
        [a, b, d] \<Rightarrow>
          49 \<le> (of_char a :: nat) \<and> (of_char a :: nat) \<le> 57 \<and>
          65 \<le> (of_char b :: nat) \<and> (of_char b :: nat) \<le> 90 \<and>
          65 \<le> (of_char d :: nat) \<and> (of_char d :: nat) \<le> 90
      | _ \<Rightarrow> False)"

text \<open>A product row that carries only a code, and the table of all 234 codes
  \<^verbatim>\<open>dAx\<close> with \<^verbatim>\<open>d\<close> in 1..9 and \<^verbatim>\<open>x\<close> in A..Z.\<close>

definition code_row :: "string \<Rightarrow> ready_product" where
  "code_row c = \<lparr>rp_id = c, rp_name = c, rp_category = ''SFH'', rp_item_category = [],
                 rp_code = c, rp_unit = ''KG'', rp_unit_cost = Some 0, rp_price = Some 0,
                 rp_quantity = Some 0, rp_threshold = Some 0\<rparr>"

definition full_table :: "ready_product list" where
  "full_table = map code_row (concat (map (fallback_candidates ''A'') [0..<26]))"

section \<open>Numbers and the remaining tables\<close>

text \<open>
  \<^verbatim>\<open>f"{x:.3f}"\<close> and \<^verbatim>\<open>f"{x:.2f}"\<close> write \<open>x\<close> with three and two decimals, rounded to
  the nearest, a tie to the even digit. \<open>fmt3 x\<close> and \<open>fmt2 x\<close> are the numbers such a
  text reads back as.
\<close>

definition round_half_even :: "rat \<Rightarrow> int" where
  "round_half_even y =
     (let f = \<lfloor>y\<rfloor>; d = y - of_int f
      in if d < 1 / 2 then f
         else if 1 / 2 < d then f + 1
         else if even f then f else f + 1)"

definition fmt3 :: "rat \<Rightarrow> rat" where
  "fmt3 x = of_int (round_half_even (x * 1000)) / 1000"

definition fmt2 :: "rat \<Rightarrow> rat" where
  "fmt2 x = of_int (round_half_even (x * 100)) / 100"

definition CATEGORIES :: "string list" where
  "CATEGORIES = [''Home Delivery'', ''Frozen Products'', ''SFH'']"

definition UNITS :: "string list" where
  "UNITS = [''KG'', ''GM'', ''Pieces'', ''Batch'', ''Plates'', ''Portion'']"

definition SUBCATEGORIES :: "string list" where
  "SUBCATEGORIES =
     [''Infrastructure'', ''Meat and Fish'', ''Veggies'', ''Grocery'', ''Dairy'', ''Bakery'',
      ''Kitchen Tool'', ''Fuel'', ''Serving Dish'', ''Operating Supplies'', ''Packaging'']"

definition PAYMENT_STATUSES :: "string list" where
  "PAYMENT_STATUSES = [''Live'', ''Due'', ''Paid'']"

definition PAYMENT_MODES :: "string list" where
  "PAYMENT_MODES = [''CurrentUPI'', ''Cash'', ''Card'', ''PersonalUPI'', ''PersonalCash'']"

record raw_item =
  ri_id :: string
  ri_name :: string
  ri_category :: string
  ri_subcategory :: string
  ri_unit :: string
  ri_unit_cost :: num_cell
  ri_stock :: num_cell
  ri_threshold :: num_cell

record purchase =
  pu_id :: string
  pu_date :: string
  pu_category :: string
  pu_subcategory :: string
  pu_item :: string
  pu_unit :: string
  pu_qty :: num_cell
  pu_unit_cost :: num_cell
  pu_total_cost :: num_cell
  pu_notes :: string

text \<open>The \<^verbatim>\<open>order_id\<close> cell of a sale is modelled by what \<^verbatim>\<open>int(cell or 0)\<close> makes of
  it: \<open>Some n\<close>, or \<open>None\<close> where \<^verbatim>\<open>int\<close> raises.\<close>

record sale =
  sa_id :: string
  sa_date :: string
  sa_category :: string
  sa_branch :: string
  sa_order_id :: "int option"
  sa_item :: string
  sa_unit :: string
  sa_qty :: num_cell
  sa_unit_price :: num_cell
  sa_discount :: num_cell
  sa_total_price :: num_cell
  sa_customer_name :: string
  sa_customer_phone :: string
  sa_table_no :: string
  sa_payment_status :: string
  sa_payment_mode :: string
  sa_payment_note :: string
  sa_notes :: string

record branch =
  br_id :: string
  br_name :: string
  br_is_active :: string

text \<open>The order counter \<^verbatim>\<open>conf/order_seq.txt\<close>: absent, or a text modelled by what
  \<^verbatim>\<open>int(text or "0")\<close> makes of it.\<close>

datatype seq_file = Missing | Holds "int option"

text \<open>
  The tables of the active snapshot and the order counter. \<^verbatim>\<open>read_csv(name)\<close> returns a
  table's rows in order, \<^verbatim>\<open>write_csv(name, rows)\<close> replaces them, \<^verbatim>\<open>append_row\<close> reads,
  appends and writes. Every row carries every column of its table's schema, as
  \<^verbatim>\<open>write_csv\<close> emits it.
\<close>

record store =
  ready_products :: "ready_product list"
  raw_inventory :: "raw_item list"
  purchases :: "purchase list"
  sales :: "sale list"
  branches :: "branch list"
  order_seq :: seq_file

text \<open>\<^verbatim>\<open>for r in rows: if P(r): target = r; break\<close> followed by an update of \<^verbatim>\<open>target\<close> in
  place changes the first row that satisfies \<open>P\<close>.\<close>

fun update_first :: "('a \<Rightarrow> bool) \<Rightarrow> ('a \<Rightarrow> 'a) \<Rightarrow> 'a list \<Rightarrow> 'a list" where
  "update_first P f [] = []"
| "update_first P f (x # xs) = (if P x then f x # xs else x # update_first P f xs)"

text \<open>\<^verbatim>\<open>s.date or today_str()\<close>.\<close>

definition date_or_today :: "string option \<Rightarrow> string \<Rightarrow> string" where
  "date_or_today d today = (if or_empty d = [] then today else or_empty d)"

section \<open>Order sequence\<close>

definition scan_max_order_id :: "sale list \<Rightarrow> int" where
  "scan_max_order_id rows =
     fold (\<lambda>r m. case sa_order_id r of Some n \<Rightarrow> max m n | None \<Rightarrow> m) rows 0"

text \<open>
  \<^verbatim>\<open>next_order_id(peek)\<close>: the result, or the \<^verbatim>\<open>ValueError\<close> of \<^verbatim>\<open>int\<close> on a
  malformed file, and the file afterwards.
\<close>

definition next_order_id :: "bool \<Rightarrow> sale list \<Rightarrow> seq_file \<Rightarrow> (error + int) \<times> seq_file" where
  "next_order_id peek sales_rows file =
     (let file1 = (case file of
                     Missing \<Rightarrow> Holds (Some (scan_max_order_id sales_rows))
                   | Holds t \<Rightarrow> Holds t)
      in case file1 of
           Holds (Some current) \<Rightarrow>
             (let nxt = current + 1
              in (Inr nxt, if \<not> peek then Holds (Some nxt) else file1))
         | _ \<Rightarrow> (Inl ValueError, file1))"

section \<open>Purchases\<close>

definition convert_qty :: "rat \<Rightarrow> string \<Rightarrow> string \<Rightarrow> error + rat" where
  "convert_qty qty from_unit to_unit =
     (if from_unit = to_unit then Inr qty
      else if from_unit = ''KG'' \<and> to_unit = ''GM'' then Inr (qty * 1000)
      else if from_unit = ''GM'' \<and> to_unit = ''KG'' then Inr (qty / 1000)
      else Inl ValueError)"

record PurchaseIn =
  p_date :: "string option"
  p_category :: string
  p_subcategory :: string
  p_item :: string
  p_unit :: string
  p_qty :: rat
  p_unit_cost :: rat
  p_notes :: "string option"

record PurchaseResp =
  pr_ok :: bool
  pr_id :: string
  pr_new_stock :: rat
  pr_unit :: string

definition purchase_match :: "PurchaseIn \<Rightarrow> raw_item \<Rightarrow> bool" where
  "purchase_match p r =
     (lower (strip (ri_name r)) = lower (strip (p_item p))
      \<and> ri_category r = p_category p
      \<and> ri_subcategory r = p_subcategory p)"

text \<open>The row \<^verbatim>\<open>add_purchase_api\<close> creates when no item matches.\<close>

definition new_raw_item :: "string \<Rightarrow> PurchaseIn \<Rightarrow> raw_item" where
  "new_raw_item item_id p =
     \<lparr>ri_id = item_id, ri_name = strip (p_item p), ri_category = p_category p,
      ri_subcategory = p_subcategory p, ri_unit = p_unit p,
      ri_unit_cost = Some (fmt2 (p_unit_cost p)), ri_stock = Some 0, ri_threshold = Some 0\<rparr>"

text \<open>
  The \<^verbatim>\<open>try\<close> block of \<^verbatim>\<open>add_purchase_api\<close>: the new stock, or the \<^verbatim>\<open>ValueError\<close> of
  \<^verbatim>\<open>convert_qty\<close> or of \<^verbatim>\<open>float\<close> on the stock cell.
\<close>

definition purchase_stock :: "PurchaseIn \<Rightarrow> raw_item \<Rightarrow> error + rat" where
  "purchase_stock p target =
     (let add_qty = p_qty p
      in case (if ri_unit target \<noteq> p_unit p
               then convert_qty add_qty (p_unit p) (ri_unit target) else Inr add_qty) of
           Inl e \<Rightarrow> Inl e
         | Inr add_qty \<Rightarrow>
             (case ri_stock target of
                None \<Rightarrow> Inl ValueError
              | Some old \<Rightarrow> Inr (old + add_qty)))"

definition purchase_row :: "string \<Rightarrow> string \<Rightarrow> PurchaseIn \<Rightarrow> purchase" where
  "purchase_row purchase_id d p =
     (let total_cost = p_qty p * p_unit_cost p
      in \<lparr>pu_id = purchase_id, pu_date = d, pu_category = p_category p,
          pu_subcategory = p_subcategory p, pu_item = strip (p_item p), pu_unit = p_unit p,
          pu_qty = Some (fmt3 (p_qty p)), pu_unit_cost = Some (fmt2 (p_unit_cost p)),
          pu_total_cost = Some (fmt2 total_cost), pu_notes = or_empty (p_notes p)\<rparr>)"

text \<open>The row a purchase lands on: the first matching one, else a new one.\<close>

definition purchase_target :: "string \<Rightarrow> PurchaseIn \<Rightarrow> raw_item list \<Rightarrow> raw_item" where
  "purchase_target item_id p rows =
     (case find (purchase_match p) rows of Some r \<Rightarrow> r | None \<Rightarrow> new_raw_item item_id p)"

text \<open>
  \<^verbatim>\<open>add_purchase_api(p)\<close>. \<open>item_id\<close> and \<open>purchase_id\<close> are the results of the two
  \<^verbatim>\<open>gen_id()\<close> calls (the first is made only when a new item is created).
\<close>

definition add_purchase_api ::
  "string \<Rightarrow> string \<Rightarrow> string \<Rightarrow> PurchaseIn \<Rightarrow> store \<Rightarrow> (error + PurchaseResp) \<times> store" where
  "add_purchase_api today item_id purchase_id p st =
     (if p_category p \<notin> set CATEGORIES then (Inl (HTTPException 400), st)
      else if p_subcategory p \<notin> set SUBCATEGORIES then (Inl (HTTPException 400), st)
      else if p_unit p \<notin> set UNITS then (Inl (HTTPException 400), st)
      else
        let d = date_or_today (p_date p) today;
            rows = raw_inventory st;
            target = purchase_target item_id p rows
        in case purchase_stock p target of
             Inl e \<Rightarrow> (Inl (HTTPException 400), st)
           | Inr stock \<Rightarrow>
               (let target' = target\<lparr>ri_stock := Some (fmt3 stock),
                                      ri_unit_cost := Some (fmt2 (p_unit_cost p))\<rparr>;
                    rows' = (case find (purchase_match p) rows of
                               Some r \<Rightarrow> update_first (purchase_match p) (\<lambda>r. target') rows
                             | None \<Rightarrow> rows @ [target']);
                    st1 = st\<lparr>raw_inventory := rows'\<rparr>;
                    prow = purchase_row purchase_id d p;
                    st2 = st1\<lparr>purchases := purchases st1 @ [prow]\<rparr>
                in (Inr \<lparr>pr_ok = True, pr_id = pu_id prow, pr_new_stock = stock,
                         pr_unit = ri_unit target\<rparr>, st2)))"

section \<open>Sales\<close>

record SaleIn =
  s_date :: "string option"
  s_category :: string
  s_branch :: "string option"
  s_order_id :: "int option"
  s_item :: string
  s_unit :: string
  s_qty :: rat
  s_unit_price :: "rat option"
  s_discount :: rat
  s_customer_name :: "string option"
  s_customer_phone :: "string option"
  s_table_no :: "string option"
  s_payment_status :: string
  s_payment_mode :: "string option"
  s_payment_note :: "string option"
  s_notes :: "string option"

record SaleResp =
  sr_ok :: bool
  sr_id :: string
  sr_order_id :: int
  sr_remaining_stock :: rat

definition sale_match :: "SaleIn \<Rightarrow> ready_product \<Rightarrow> bool" where
  "sale_match s r =
     (lower (strip (rp_name r)) = lower (strip (s_item s)) \<and> rp_category r = s_category s)"

text \<open>\<^verbatim>\<open>s.unit_price if s.unit_price is not None else float(target.get("price") or 0.0)\<close>.\<close>

definition sale_price :: "SaleIn \<Rightarrow> ready_product \<Rightarrow> rat option" where
  "sale_price s target = (case s_unit_price s of Some v \<Rightarrow> Some v | None \<Rightarrow> rp_price target)"

text \<open>\<^verbatim>\<open>s.order_id if s.order_id is not None else next_order_id()\<close>.\<close>

definition sale_order_id :: "SaleIn \<Rightarrow> store \<Rightarrow> (error + int) \<times> seq_file" where
  "sale_order_id s st =
     (case s_order_id s of
        Some v \<Rightarrow> (Inr v, order_seq st)
      | None \<Rightarrow> next_order_id False (sales st) (order_seq st))"

definition sale_row ::
  "string \<Rightarrow> string \<Rightarrow> SaleIn \<Rightarrow> ready_product \<Rightarrow> int \<Rightarrow> rat \<Rightarrow> rat \<Rightarrow> rat \<Rightarrow> rat \<Rightarrow> sale" where
  "sale_row sale_id d s target oid qty price discount total_price =
     \<lparr>sa_id = sale_id, sa_date = d, sa_category = s_category s,
      sa_branch = or_empty (s_branch s), sa_order_id = Some oid, sa_item = rp_name target,
      sa_unit = s_unit s, sa_qty = Some (fmt3 qty), sa_unit_price = Some (fmt2 price),
      sa_discount = Some (fmt2 discount), sa_total_price = Some (fmt2 total_price),
      sa_customer_name = or_empty (s_customer_name s),
      sa_customer_phone = or_empty (s_customer_phone s),
      sa_table_no = or_empty (s_table_no s),
      sa_payment_status = (if s_payment_status s = [] then ''Live'' else s_payment_status s),
      sa_payment_mode = or_empty (s_payment_mode s),
      sa_payment_note = or_empty (s_payment_note s),
      sa_notes = or_empty (s_notes s)\<rparr>"

text \<open>
  \<^verbatim>\<open>add_sale_api(s)\<close>. The store is returned with the error as well: what was written
  before an exception stays written.
\<close>

definition add_sale_api ::
  "string \<Rightarrow> string \<Rightarrow> SaleIn \<Rightarrow> store \<Rightarrow> (error + SaleResp) \<times> store" where
  "add_sale_api today sale_id s st =
     (if s_category s \<notin> set CATEGORIES then (Inl (HTTPException 400), st)
      else
        let ready = ready_products st
        in case find (sale_match s) ready of
             None \<Rightarrow> (Inl (HTTPException 400), st)
           | Some target \<Rightarrow>
               (let prod_unit = rp_unit target
                in if s_unit s \<noteq> prod_unit then (Inl (HTTPException 400), st)
                   else case sale_price s target of
                     None \<Rightarrow> (Inl ValueError, st)
                   | Some price \<Rightarrow>
                       (let qty = s_qty s;
                            discount = (if s_discount s < 0 then 0 else s_discount s);
                            d = date_or_today (s_date s) today
                        in case rp_quantity target of
                             None \<Rightarrow> (Inl ValueError, st)
                           | Some current \<Rightarrow>
                               if current < qty then (Inl (HTTPException 400), st)
                               else
                                 let remaining = fmt3 (current - qty);
                                     ready' = update_first (sale_match s)
                                                (\<lambda>r. r\<lparr>rp_quantity := Some remaining\<rparr>) ready;
                                     st1 = st\<lparr>ready_products := ready'\<rparr>
                                 in case sale_order_id s st1 of
                                      (Inl e, seq') \<Rightarrow> (Inl e, st1\<lparr>order_seq := seq'\<rparr>)
                                    | (Inr oid, seq') \<Rightarrow>
                                        (let subtotal = qty * price;
                                             total_price = max 0 (subtotal - discount);
                                             row = sale_row sale_id d s target oid qty price
                                                     discount total_price;
                                             st2 = st1\<lparr>order_seq := seq',
                                                       sales := sales st1 @ [row]\<rparr>
                                         in (Inr \<lparr>sr_ok = True, sr_id = sa_id row,
                                                  sr_order_id = oid,
                                                  sr_remaining_stock = remaining\<rparr>, st2)))))"

text \<open>\<^verbatim>\<open>adjust_ready_stock_api(item_id, delta)\<close>.\<close>

definition adjust_ready_stock_api ::
  "string \<Rightarrow> rat \<Rightarrow> store \<Rightarrow> (error + rat) \<times> store" where
  "adjust_ready_stock_api item_id delta st =
     (let rows = ready_products st
      in case find (\<lambda>r. rp_id r = item_id) rows of
           None \<Rightarrow> (Inl (HTTPException 404), st)
         | Some r \<Rightarrow>
             (case rp_quantity r of
                None \<Rightarrow> (Inl ValueError, st)
              | Some old \<Rightarrow>
                  (let q = old + delta
                   in if q < 0 then (Inl (HTTPException 400), st)
                      else (Inr q,
                            st\<lparr>ready_products :=
                                 update_first (\<lambda>r. rp_id r = item_id)
                                   (\<lambda>r. r\<lparr>rp_quantity := Some (fmt3 q)\<rparr>) rows\<rparr>))))"

section \<open>A sequential run of the sequence generator\<close>

text \<open>The number a call reads as \<^verbatim>\<open>current\<close>: the file's, or on a missing file the
  maximum order id of the sales table.\<close>

definition current_value :: "sale list \<Rightarrow> seq_file \<Rightarrow> int" where
  "current_value sales_rows file =
     (case file of
        Missing \<Rightarrow> scan_max_order_id sales_rows
      | Holds None \<Rightarrow> 0
      | Holds (Some n) \<Rightarrow> n)"

text \<open>Calls one after the other; each call has its \<^verbatim>\<open>peek\<close> flag and the sales table
  of its moment. The results are returned in order, with the file at the end.\<close>

fun next_order_ids ::
  "(bool \<times> sale list) list \<Rightarrow> seq_file \<Rightarrow> (error + int) list \<times> seq_file" where
  "next_order_ids [] file = ([], file)"
| "next_order_ids ((peek, sales_rows) # calls) file =
     (let (r, file1) = next_order_id peek sales_rows file;
          (rs, file2) = next_order_ids calls file1
      in (r # rs, file2))"

text \<open>The results of the calls made with \<^verbatim>\<open>peek=False\<close>.\<close>

definition non_peek_results :: "(bool \<times> sale list) list \<Rightarrow> 'a list \<Rightarrow> 'a list" where
  "non_peek_results calls results =
     map snd (filter (\<lambda>(c, r). \<not> fst c) (zip calls results))"

section \<open>Branches\<close>




section \<open>Ready products: explicit codes\<close>










section \<open>Day snapshots\<close>

text \<open>
  The data directory is the list of its entries. A snapshot directory is the list of its
  files, each a CSV text held as its lines of cells, the header first. Names compare as
  Python compares the paths: by the characters' codes, the first difference deciding.
\<close>

type_synonym csv = "string list list"

type_synonym snapshot = "(string \<times> csv) list"

datatype node = RegularFile | Directory snapshot

type_synonym data_root = "(string \<times> node) list"

definition HEADERS :: "(string \<times> string list) list" where
  "HEADERS =
     [(''ready_products'',
         [''id'', ''name'', ''category'', ''item_category'', ''code'',
          ''unit'', ''unit_cost'', ''price'', ''quantity'', ''threshold'']),
      (''raw_inventory'',
         [''id'', ''name'', ''category'', ''subcategory'', ''unit'',
          ''unit_cost'', ''stock'', ''threshold'']),
      (''purchases'',
         [''id'', ''date'', ''category'', ''subcategory'', ''item'',
          ''unit'', ''qty'', ''unit_cost'', ''total_cost'', ''notes'']),
      (''sales'',
         [''id'', ''date'', ''category'', ''branch'', ''order_id'', ''item'', ''unit'', ''qty'',
          ''unit_price'', ''discount'', ''total_price'', ''customer_name'', ''customer_phone'',
          ''table_no'', ''payment_status'', ''payment_mode'', ''payment_note'', ''notes'']),
      (''branches'', [''id'', ''name'', ''is_active''])]"

text \<open>One step of the loop of \<^verbatim>\<open>_init_csvs\<close>: a missing file is created with its
  header row, an existing one is left alone.\<close>

definition init_csv :: "string \<times> string list \<Rightarrow> snapshot \<Rightarrow> snapshot" where
  "init_csv kh snap =
     (case kh of (key, headers) \<Rightarrow>
        if map_of snap (key @ ''.csv'') = None then snap @ [(key @ ''.csv'', [headers])]
        else snap)"

definition init_csvs :: "snapshot \<Rightarrow> snapshot" where
  "init_csvs snap = fold init_csv HEADERS snap"

definition day_dirs :: "data_root \<Rightarrow> (string \<times> snapshot) list" where
  "day_dirs entries =
     List.map_filter
       (\<lambda>(name, n). case n of Directory snap \<Rightarrow> Some (name, snap) | RegularFile \<Rightarrow> None) entries"

definition latest_existing_day_dir :: "data_root \<Rightarrow> (string \<times> snapshot) option" where
  "latest_existing_day_dir entries =
     (let dirs = sort_key fst (day_dirs entries)
      in if dirs \<noteq> [] then Some (last dirs) else None)"

text \<open>
  \<^verbatim>\<open>get_today_dir()\<close>: the data directory afterwards (the path returned is
  \<^verbatim>\<open>DATA_ROOT / today\<close>). \<^verbatim>\<open>_init_csvs\<close> begins with \<^verbatim>\<open>mkdir(exist_ok=True)\<close>, which
  raises when the path exists as a regular file.
\<close>

definition get_today_dir :: "string \<Rightarrow> data_root \<Rightarrow> error + data_root" where
  "get_today_dir today entries =
     (case map_of entries today of
        Some (Directory snap) \<Rightarrow> Inr (AList.update today (Directory (init_csvs snap)) entries)
      | Some RegularFile \<Rightarrow> Inl FileExistsError
      | None \<Rightarrow>
          (let latest = latest_existing_day_dir entries;
               copied = (case latest of
                           Some (name, snap) \<Rightarrow> if name \<noteq> today then snap else []
                         | None \<Rightarrow> [])
           in Inr (AList.update today (Directory (init_csvs copied)) entries)))"

section \<open>Concrete inputs\<close>

definition empty_store :: store where
  "empty_store = \<lparr>ready_products = [], raw_inventory = [], purchases = [], sales = [],
                   branches = [], order_seq = Missing\<rparr>"

text \<open>The purchase of the specification's scenario: 10 KG of chicken at 200.\<close>

definition chicken_purchase :: PurchaseIn where
  "chicken_purchase =
     \<lparr>p_date = None, p_category = ''Frozen Products'', p_subcategory = ''Meat and Fish'',
      p_item = ''Chicken'', p_unit = ''KG'', p_qty = 10, p_unit_cost = 200, p_notes = None\<rparr>"

text \<open>The product of the specification's scenario: 20 burgers at 100.\<close>

definition burger :: ready_product where
  "burger = \<lparr>rp_id = ''b1'', rp_name = ''Burger'', rp_category = ''Home Delivery'',
             rp_item_category = ''Snacks'', rp_code = ''1SB'', rp_unit = ''Pieces'',
             rp_unit_cost = Some 60, rp_price = Some 100, rp_quantity = Some 20,
             rp_threshold = Some 5\<rparr>"

definition burger_store :: store where
  "burger_store = empty_store\<lparr>ready_products := [burger]\<rparr>"

definition burger_sale :: SaleIn where
  "burger_sale =
     \<lparr>s_date = None, s_category = ''Home Delivery'', s_branch = None, s_order_id = None,
      s_item = ''burger'', s_unit = ''Pieces'', s_qty = 3, s_unit_price = None,
      s_discount = 10, s_customer_name = None, s_customer_phone = None, s_table_no = None,
      s_payment_status = ''Live'', s_payment_mode = None, s_payment_note = None,
      s_notes = None\<rparr>"

text \<open>The store after one sale of burgers under the order number 7.\<close>

definition sold_store :: store where
  "sold_store =
     snd (add_sale_api ''2024-01-01'' ''s1'' (burger_sale\<lparr>s_order_id := Some 7\<rparr>) burger_store)"



text \<open>A data directory with two day snapshots and the marker file of the migration.\<close>

definition two_days :: data_root where
  "two_days =
     [(''2024-01-02'', Directory [(''sales.csv'', [[''id''], [''s2'']])]),
      (''.full_invent_migrated'', RegularFile),
      (''2024-01-01'', Directory [(''sales.csv'', [[''id''], [''s1'']])])]"

section \<open>Code assigner: what it returns and when\<close>

lemma first_unused_Some:
  "first_unused existing cs = Some code \<Longrightarrow> code \<in> set cs \<and> code \<notin> existing"
  by (auto simp: first_unused_def find_Some_iff)

lemma first_unused_None:
  "first_unused existing cs = None \<longleftrightarrow> set cs \<subseteq> existing"
  by (auto simp: first_unused_def find_None_iff)

text \<open>Whatever the fallback loop returns is an unused candidate of some round.\<close>

lemma fallback_search_sound:
  assumes "fallback_search l2 existing idx = Some code"
  shows "code \<notin> existing \<and> (\<exists>i. code \<in> set (fallback_candidates l2 i))"
proof (rule fallback_search.raw_induct
    [where P = "\<lambda>l ex i c. c \<notin> ex \<and> (\<exists>j. c \<in> set (fallback_candidates l j))"
       and ?l2.0 = l2 and existing = existing and idx = idx and y = code])
  fix f l ex i c
  assume IH: "\<And>l ex i c. f l ex i = Some c \<Longrightarrow>
                 c \<notin> ex \<and> (\<exists>j. c \<in> set (fallback_candidates l j))"
    and step: "(case first_unused ex (fallback_candidates l i) of
                  None \<Rightarrow> f l ex (i + 1) | Some code \<Rightarrow> Some code) = Some c"
  show "c \<notin> ex \<and> (\<exists>j. c \<in> set (fallback_candidates l j))"
  proof (cases "first_unused ex (fallback_candidates l i)")
    case None
    with step have "f l ex (i + 1) = Some c" by simp
    then show ?thesis by (rule IH)
  next
    case (Some c')
    with step have "c' = c" by simp
    with Some first_unused_Some show ?thesis by blast
  qed
next
  show "fallback_search l2 existing idx = Some code" by fact
qed

text \<open>A round with an unused candidate, \<open>n\<close> rounds ahead, is reached.\<close>

lemma fallback_search_reaches:
  "first_unused existing (fallback_candidates l2 (idx + n)) \<noteq> None \<Longrightarrow>
     fallback_search l2 existing idx \<noteq> None"
proof (induction n arbitrary: idx)
  case 0
  then show ?case
    by (subst fallback_search.simps) (auto split: option.splits)
next
  case (Suc n)
  from Suc.prems have "first_unused existing (fallback_candidates l2 (Suc idx + n)) \<noteq> None"
    by simp
  then have "fallback_search l2 existing (Suc idx) \<noteq> None"
    by (rule Suc.IH)
  then show ?case
    by (subst fallback_search.simps) (auto split: option.splits)
qed

text \<open>The rounds repeat with period 26: round \<open>i\<close> tries what round \<open>i mod 26\<close> tried.\<close>

lemma fallback_candidates_mod:
  "fallback_candidates l2 (i mod 26) = fallback_candidates l2 i"
  by (simp add: fallback_candidates_def)

lemma fallback_search_returns_iff:
  "fallback_search l2 existing 0 \<noteq> None \<longleftrightarrow>
     (\<exists>k<26. \<not> set (fallback_candidates l2 k) \<subseteq> existing)"
proof
  assume "fallback_search l2 existing 0 \<noteq> None"
  then obtain code where "fallback_search l2 existing 0 = Some code" by auto
  from fallback_search_sound [OF this] obtain i
    where "code \<notin> existing" "code \<in> set (fallback_candidates l2 i)" by auto
  then have "\<not> set (fallback_candidates l2 (i mod 26)) \<subseteq> existing"
    by (auto simp: fallback_candidates_mod)
  moreover have "i mod 26 < 26" by simp
  ultimately show "\<exists>k<26. \<not> set (fallback_candidates l2 k) \<subseteq> existing" by blast
next
  assume "\<exists>k<26. \<not> set (fallback_candidates l2 k) \<subseteq> existing"
  then obtain k where "\<not> set (fallback_candidates l2 k) \<subseteq> existing" by auto
  then have "first_unused existing (fallback_candidates l2 (0 + k)) \<noteq> None"
    by (simp add: first_unused_None)
  then show "fallback_search l2 existing 0 \<noteq> None"
    by (rule fallback_search_reaches)
qed

lemma fallback_search_None:
  assumes "\<forall>k<26. set (fallback_candidates l2 k) \<subseteq> existing"
  shows "fallback_search l2 existing idx = None"
proof (cases "fallback_search l2 existing idx")
  case None
  then show ?thesis .
next
  case (Some code)
  from fallback_search_sound [OF this] obtain i
    where "code \<notin> existing" "code \<in> set (fallback_candidates l2 i)" by auto
  then have "\<not> set (fallback_candidates l2 (i mod 26)) \<subseteq> existing"
    by (auto simp: fallback_candidates_mod)
  with assms show ?thesis by simp
qed

lemma generate_ready_code_Some:
  assumes "generate_ready_code name item_category rows = Some code"
  shows "code \<notin> existing_codes rows \<and>
         (code \<in> set (suffix_candidates (letter2 name item_category @ letter3 name)) \<or>
          (\<exists>k<26. code \<in> set (fallback_candidates (letter2 name item_category) k)))"
proof (cases "first_unused (existing_codes rows)
                (suffix_candidates (letter2 name item_category @ letter3 name))")
  case None
  with assms have "fallback_search (letter2 name item_category) (existing_codes rows) 0 = Some code"
    by (simp add: generate_ready_code_def Let_def)
  from fallback_search_sound [OF this] obtain i
    where "code \<notin> existing_codes rows"
      and "code \<in> set (fallback_candidates (letter2 name item_category) i)" by auto
  then have "code \<in> set (fallback_candidates (letter2 name item_category) (i mod 26))"
    by (simp add: fallback_candidates_mod)
  moreover have "i mod 26 < 26" by simp
  ultimately show ?thesis using \<open>code \<notin> existing_codes rows\<close> by blast
next
  case (Some c)
  with assms have "c = code" by (simp add: generate_ready_code_def Let_def)
  with Some first_unused_Some show ?thesis by blast
qed

text \<open>
  C9. The claim: the fallback search ends for every input, because the candidates grow
  with the index. In the code the index enters only as \<^verbatim>\<open>idx % 26\<close>, so the rounds
  repeat. What holds: the assigner returns exactly when one of the nine codes
  \<^verbatim>\<open>d + l2 + l3\<close> or one of the 234 codes \<^verbatim>\<open>d + l2 + letter\<close> (\<^verbatim>\<open>d\<close> in 1..9,
  \<^verbatim>\<open>letter\<close> in A..Z) is unused.
\<close>

theorem generate_ready_code_returns_iff:
  "(\<exists>code. generate_ready_code name item_category rows = Some code) \<longleftrightarrow>
     (\<exists>code. code \<notin> existing_codes rows \<and>
        (code \<in> set (suffix_candidates (letter2 name item_category @ letter3 name)) \<or>
         (\<exists>k<26. code \<in> set (fallback_candidates (letter2 name item_category) k))))"
proof
  assume "\<exists>code. generate_ready_code name item_category rows = Some code"
  then show "\<exists>code. code \<notin> existing_codes rows \<and>
        (code \<in> set (suffix_candidates (letter2 name item_category @ letter3 name)) \<or>
         (\<exists>k<26. code \<in> set (fallback_candidates (letter2 name item_category) k)))"
    using generate_ready_code_Some by blast
next
  assume "\<exists>code. code \<notin> existing_codes rows \<and>
        (code \<in> set (suffix_candidates (letter2 name item_category @ letter3 name)) \<or>
         (\<exists>k<26. code \<in> set (fallback_candidates (letter2 name item_category) k)))"
  then obtain code where unused: "code \<notin> existing_codes rows"
    and cand: "code \<in> set (suffix_candidates (letter2 name item_category @ letter3 name)) \<or>
         (\<exists>k<26. code \<in> set (fallback_candidates (letter2 name item_category) k))"
    by blast
  show "\<exists>code. generate_ready_code name item_category rows = Some code"
  proof (cases "first_unused (existing_codes rows)
                  (suffix_candidates (letter2 name item_category @ letter3 name))")
    case (Some c)
    then show ?thesis by (simp add: generate_ready_code_def Let_def)
  next
    case None
    then have "set (suffix_candidates (letter2 name item_category @ letter3 name))
                 \<subseteq> existing_codes rows"
      by (simp add: first_unused_None)
    with unused cand obtain k
      where "k < 26" "code \<in> set (fallback_candidates (letter2 name item_category) k)"
      by blast
    with unused have "\<exists>k<26. \<not> set (fallback_candidates (letter2 name item_category) k)
                               \<subseteq> existing_codes rows"
      by blast
    then have "fallback_search (letter2 name item_category) (existing_codes rows) 0 \<noteq> None"
      by (rule iffD2 [OF fallback_search_returns_iff])
    with None show ?thesis by (auto simp: generate_ready_code_def Let_def)
  qed
qed

theorem generate_ready_code_returns_iff_witness:
  "generate_ready_code ''Chicken Momo'' ''Chicken'' [] \<noteq> None"
proof -
  have "''1CC'' \<notin> existing_codes [] \<and>
        ''1CC'' \<in> set (suffix_candidates (letter2 ''Chicken Momo'' ''Chicken'' @ letter3 ''Chicken Momo''))"
    by code_simp
  then have "\<exists>code. generate_ready_code ''Chicken Momo'' ''Chicken'' [] = Some code"
    using generate_ready_code_returns_iff [of "''Chicken Momo''" "''Chicken''" "[]"] by blast
  then show ?thesis by blast
qed

text \<open>Against the claim as stated: with all 234 codes \<^verbatim>\<open>dAx\<close> in use, a product named
  Apple of item category A gets no code; the loop runs for ever.\<close>

lemma upper_fallback_candidate:
  assumes "c \<in> set (fallback_candidates ''A'' k)"
  shows "upper c = c"
proof -
  from assms obtain d where "d < 10" and c: "c = digit_str d @ ''A'' @ [char_of (65 + k mod 26)]"
    by (auto simp: fallback_candidates_def)
  have "k mod 26 < 26" by simp
  then have "(65 + k mod 26) mod 256 = 65 + k mod 26" by simp
  then show ?thesis using \<open>d < 10\<close> unfolding c
    by (simp add: upper_def upper_char_def digit_str_def Let_def)
qed

lemma full_table_covers:
  assumes "k < 26"
  shows "set (fallback_candidates ''A'' k) \<subseteq> existing_codes full_table"
proof
  fix c
  assume c: "c \<in> set (fallback_candidates ''A'' k)"
  with assms have "c \<in> set (concat (map (fallback_candidates ''A'') [0..<26]))"
    by auto
  then have "upper (rp_code (code_row c)) \<in> existing_codes full_table"
    unfolding existing_codes_def full_table_def by (simp add: image_iff) blast
  moreover have "rp_code (code_row c) = c"
    by (simp add: code_row_def)
  ultimately show "c \<in> existing_codes full_table"
    using upper_fallback_candidate [OF c] by simp
qed

lemma letters_Apple: "letter2 ''Apple'' ''A'' = ''A''" "letter3 ''Apple'' = ''A''"
  by code_simp+

lemma suffix_candidates_AA: "suffix_candidates ''AA'' = fallback_candidates ''A'' 0"
  by code_simp

theorem generate_ready_code_full_table:
  "generate_ready_code ''Apple'' ''A'' full_table = None"
proof -
  have fb: "\<forall>k<26. set (fallback_candidates ''A'' k) \<subseteq> existing_codes full_table"
    using full_table_covers by blast
  then have "set (suffix_candidates ''AA'') \<subseteq> existing_codes full_table"
    by (simp add: suffix_candidates_AA)
  then have "first_unused (existing_codes full_table) (suffix_candidates ''AA'') = None"
    by (simp add: first_unused_None)
  with fallback_search_None [OF fb] show ?thesis
    by (simp add: generate_ready_code_def Let_def letters_Apple)
qed

text \<open>
  C6. The claim: the code returned is unused and matches \<^verbatim>\<open>^[1-9][A-Z]{2}$\<close>. The
  docstring of \<^verbatim>\<open>_generate_ready_code\<close> promises digit, letter, letter as well, but the
  code takes the first character of the name, letter or not: for the product 7up with no
  item category it returns 177. (That the code returned is unused is
  \<open>generate_ready_code_Some\<close>.)
\<close>

theorem generate_ready_code_leading_digit:
  "generate_ready_code ''7up'' '''' [] = Some ''177'' \<and> \<not> spec_code_format ''177''"
  by code_simp

section \<open>Stock transactions\<close>

lemma round_half_even_nonneg: "0 \<le> y \<Longrightarrow> 0 \<le> round_half_even y"
  by (auto simp: round_half_even_def Let_def)

lemma fmt3_nonneg: "0 \<le> x \<Longrightarrow> 0 \<le> fmt3 x"
  by (simp add: fmt3_def round_half_even_nonneg)


lemma sale_match_quantity [simp]:
  "sale_match s (r\<lparr>rp_quantity := q\<rparr>) = sale_match s r"
  by (simp add: sale_match_def)


lemma sale_order_id_ready [simp]:
  "sale_order_id s (st\<lparr>ready_products := rs\<rparr>) = sale_order_id s st"
  by (simp add: sale_order_id_def split: option.splits)




text \<open>
  C8. The claim: a sale whose payment status is not Live, Due or Paid is rejected, and no
  such row reaches the sales table. \<^verbatim>\<open>add_sale_api\<close> never looks at the status
  (\<^verbatim>\<open>update_sale_payment\<close> does): the sale below is accepted and its row written.
\<close>

theorem add_sale_api_bogus_status:
  "''Bogus'' \<notin> set PAYMENT_STATUSES \<and>
   map_sum id sr_ok
     (fst (add_sale_api ''2024-01-01'' ''s1'' (burger_sale\<lparr>s_payment_status := ''Bogus''\<rparr>)
             burger_store)) = Inr True \<and>
   map sa_payment_status
     (sales (snd (add_sale_api ''2024-01-01'' ''s1''
                    (burger_sale\<lparr>s_payment_status := ''Bogus''\<rparr>) burger_store)))
     = [''Bogus'']"
  by code_simp





text \<open>The sale and the stock adjustment guard their result: neither leaves a negative
  quantity.\<close>

lemma add_sale_api_nonneg:
  assumes "add_sale_api today sale_id s st = (Inr resp, st')"
  shows "0 \<le> sr_remaining_stock resp"
  using assms
  by (auto simp: add_sale_api_def Let_def intro!: fmt3_nonneg
           split: if_splits option.splits prod.splits sum.splits)

lemma adjust_ready_stock_api_nonneg:
  assumes "adjust_ready_stock_api item_id delta st = (Inr q, st')"
  shows "0 \<le> q"
  using assms
  by (auto simp: adjust_ready_stock_api_def Let_def split: if_splits option.splits)

text \<open>
  C1. The claim: after a purchase, a sale or a stock adjustment commits, no quantity or
  stock is negative, and a purchase never lowers the stock. The sale and the adjustment
  guard their result (\<open>add_sale_api_nonneg\<close>, \<open>adjust_ready_stock_api_nonneg\<close>); the
  purchase has no guard and takes a negative quantity: a first purchase of -5 KG is
  accepted and leaves a stock of -5.
\<close>

theorem add_purchase_api_negative_qty:
  "fst (add_purchase_api ''2024-01-01'' ''i1'' ''p1'' (chicken_purchase\<lparr>p_qty := - 5\<rparr>)
          empty_store)
     = Inr \<lparr>pr_ok = True, pr_id = ''p1'', pr_new_stock = - 5, pr_unit = ''KG''\<rparr>
   \<and> map ri_stock (raw_inventory (snd (add_purchase_api ''2024-01-01'' ''i1'' ''p1''
       (chicken_purchase\<lparr>p_qty := - 5\<rparr>) empty_store)))
     = [Some (- 5)]"
  by code_simp

section \<open>Sequence generator: runs of calls\<close>

lemma next_order_id_value:
  assumes "file \<noteq> Holds None"
  shows "next_order_id peek sales_rows file =
           (Inr (current_value sales_rows file + 1),
            Holds (Some (if peek then current_value sales_rows file
                         else current_value sales_rows file + 1)))"
proof (cases "file")
  case Missing
  then show ?thesis
    by (simp add: next_order_id_def current_value_def Let_def)
next
  case (Holds t)
  with assms obtain n where "t = Some n" by (cases t) auto
  with Holds show ?thesis
    by (simp add: next_order_id_def current_value_def Let_def)
qed

lemma next_order_ids_peeks:
  "next_order_ids (map (Pair True) tables) (Holds (Some n)) =
     (replicate (length tables) (Inr (n + 1)), Holds (Some n))"
  by (induction tables) (simp_all add: next_order_id_value current_value_def)

lemma non_peek_results_Cons:
  "non_peek_results ((peek, t) # calls) (v # vs) =
     (if peek then non_peek_results calls vs else v # non_peek_results calls vs)"
  by (simp add: non_peek_results_def)

text \<open>
  The invariant of a run: every call returns, the results of the non-peek calls increase
  strictly, and from a file that holds \<open>n\<close> the run ends on a file that holds some
  \<open>m \<ge> n\<close>, every non-peek result lying above \<open>n\<close> and at most \<open>m\<close>.
\<close>

lemma next_order_ids_from:
  "\<exists>vs m. next_order_ids calls (Holds (Some n)) = (map Inr vs, Holds (Some m)) \<and>
          n \<le> m \<and>
          (\<forall>v \<in> set (non_peek_results calls vs). n < v \<and> v \<le> m) \<and>
          sorted_wrt (<) (non_peek_results calls vs)"
proof (induction calls arbitrary: n)
  case Nil
  have "next_order_ids [] (Holds (Some n)) = (map Inr [], Holds (Some n))" by simp
  moreover have "non_peek_results [] ([] :: int list) = []"
    by (simp add: non_peek_results_def)
  ultimately show ?case by (intro exI [of _ "[]"] exI [of _ n]) simp
next
  case (Cons c calls)
  obtain peek t where c: "c = (peek, t)" by (cases c)
  define n' where "n' = (if peek then n else n + 1)"
  have step: "next_order_id peek t (Holds (Some n)) = (Inr (n + 1), Holds (Some n'))"
    by (simp add: next_order_id_value current_value_def n'_def)
  from Cons.IH [of n'] obtain vs m
    where run: "next_order_ids calls (Holds (Some n')) = (map Inr vs, Holds (Some m))"
      and le: "n' \<le> m"
      and bounds: "\<forall>v \<in> set (non_peek_results calls vs). n' < v \<and> v \<le> m"
      and inc: "sorted_wrt (<) (non_peek_results calls vs)"
    by blast
  have "next_order_ids (c # calls) (Holds (Some n)) = (map Inr ((n + 1) # vs), Holds (Some m))"
    by (simp add: c step run)
  moreover have "n \<le> m"
    using le by (simp add: n'_def split: if_splits)
  moreover have "\<forall>v \<in> set (non_peek_results (c # calls) ((n + 1) # vs)). n < v \<and> v \<le> m"
    using bounds le by (auto simp: c non_peek_results_Cons n'_def split: if_splits)
  moreover have "sorted_wrt (<) (non_peek_results (c # calls) ((n + 1) # vs))"
    using bounds inc by (auto simp: c non_peek_results_Cons n'_def split: if_splits)
  ultimately show ?case by blast
qed

lemma next_order_ids_results:
  assumes "file \<noteq> Holds None"
  shows "\<exists>vs. fst (next_order_ids calls file) = map Inr vs \<and>
           sorted_wrt (<) (non_peek_results calls vs)"
proof (cases calls)
  case Nil
  have "non_peek_results [] ([] :: int list) = []"
    by (simp add: non_peek_results_def)
  with Nil show ?thesis by (intro exI [of _ "[]"]) simp
next
  case (Cons c rest)
  obtain peek t where c: "c = (peek, t)" by (cases c)
  define v where "v = current_value t file + 1"
  define n' where "n' = (if peek then current_value t file else current_value t file + 1)"
  have step: "next_order_id peek t file = (Inr v, Holds (Some n'))"
    using next_order_id_value [OF assms] by (simp add: v_def n'_def)
  from next_order_ids_from [of rest n'] obtain vs m
    where run: "next_order_ids rest (Holds (Some n')) = (map Inr vs, Holds (Some m))"
      and bounds: "\<forall>v \<in> set (non_peek_results rest vs). n' < v \<and> v \<le> m"
      and inc: "sorted_wrt (<) (non_peek_results rest vs)"
    by blast
  have "fst (next_order_ids calls file) = map Inr (v # vs)"
    by (simp add: Cons c step run)
  moreover have "sorted_wrt (<) (non_peek_results calls (v # vs))"
    using bounds inc by (auto simp: Cons c non_peek_results_Cons n'_def v_def split: if_splits)
  ultimately show ?thesis by blast
qed

text \<open>
  C5. For a counter file that is missing or holds an integer: a run of calls with
  \<^verbatim>\<open>peek=True\<close> returns \<open>current + 1\<close> every time and leaves the file holding
  \<open>current\<close> (written only when the file was missing); a call with \<^verbatim>\<open>peek=False\<close>
  returns \<open>current + 1\<close> and leaves the file holding it; in any run every call returns,
  the results of the non-peek calls increase strictly, so no two are equal; and a file
  that holds \<open>n\<close> holds some \<open>m \<ge> n\<close> after any run.
\<close>

theorem next_order_id_sequence:
  assumes "file \<noteq> Holds None"
  shows "next_order_ids (map (Pair True) (t # tables)) file =
           (replicate (Suc (length tables)) (Inr (current_value t file + 1)),
            Holds (Some (current_value t file)))
       \<and> next_order_id False t file =
           (Inr (current_value t file + 1), Holds (Some (current_value t file + 1)))
       \<and> (\<exists>vs. fst (next_order_ids calls file) = map Inr vs \<and>
                sorted_wrt (<) (non_peek_results calls vs) \<and>
                distinct (non_peek_results calls vs))
       \<and> (\<exists>m. snd (next_order_ids calls (Holds (Some n))) = Holds (Some m) \<and> n \<le> m)"
proof (intro conjI)
  show "next_order_ids (map (Pair True) (t # tables)) file =
           (replicate (Suc (length tables)) (Inr (current_value t file + 1)),
            Holds (Some (current_value t file)))"
    using next_order_id_value [OF assms, of True t]
    by (simp add: next_order_ids_peeks)
next
  show "next_order_id False t file =
           (Inr (current_value t file + 1), Holds (Some (current_value t file + 1)))"
    using next_order_id_value [OF assms, of False t] by simp
next
  from next_order_ids_results [OF assms, of calls] obtain vs
    where "fst (next_order_ids calls file) = map Inr vs"
      and inc: "sorted_wrt (<) (non_peek_results calls vs)"
    by blast
  moreover from inc have "distinct (non_peek_results calls vs)"
    by (simp add: strict_sorted_iff)
  ultimately show "\<exists>vs. fst (next_order_ids calls file) = map Inr vs \<and>
                sorted_wrt (<) (non_peek_results calls vs) \<and>
                distinct (non_peek_results calls vs)"
    by blast
next
  from next_order_ids_from [of calls n]
  show "\<exists>m. snd (next_order_ids calls (Holds (Some n))) = Holds (Some m) \<and> n \<le> m"
    by force
qed

theorem next_order_id_sequence_witness:
  "next_order_ids (map (Pair True) [sales sold_store, [], []]) Missing
     = ([Inr 8, Inr 8, Inr 8], Holds (Some 7))"
proof -
  have ok: "Missing \<noteq> Holds None" by simp
  have step: "next_order_ids (map (Pair True) (sales sold_store # [[], []])) Missing =
          (replicate (Suc (length [[], [] :: sale list]))
             (Inr (current_value (sales sold_store) Missing + 1)),
           Holds (Some (current_value (sales sold_store) Missing)))"
    by (rule next_order_id_sequence [OF ok, THEN conjunct1])
  have cv: "current_value (sales sold_store) Missing = 7"
    by code_simp
  show ?thesis
    unfolding step cv by simp
qed

section \<open>Branches: adding a name twice\<close>







section \<open>Explicit product codes: what the handlers accept\<close>












section \<open>Day snapshots: the first access of a day\<close>

lemma init_csv_keeps:
  "map_of snap f = Some c \<Longrightarrow> map_of (init_csv kh snap) f = Some c"
  by (cases kh) (auto simp: init_csv_def map_add_def split: option.splits)

lemma fold_init_csv_keeps:
  "map_of snap f = Some c \<Longrightarrow> map_of (fold init_csv hs snap) f = Some c"
  by (induction hs arbitrary: snap) (simp_all add: init_csv_keeps)

lemma init_csv_creates:
  "map_of snap (k @ ''.csv'') = None \<Longrightarrow>
     map_of (init_csv (k, h) snap) (k @ ''.csv'') = Some [h]"
  by (simp add: init_csv_def map_add_def)

lemma init_csv_other:
  "k' \<noteq> k \<Longrightarrow> map_of snap (k @ ''.csv'') = None \<Longrightarrow>
     map_of (init_csv (k', h') snap) (k @ ''.csv'') = None"
  by (simp add: init_csv_def map_add_def)

lemma fold_init_csv_creates:
  assumes "distinct (map fst hs)" and "(k, h) \<in> set hs"
    and "map_of snap (k @ ''.csv'') = None"
  shows "map_of (fold init_csv hs snap) (k @ ''.csv'') = Some [h]"
  using assms
proof (induction hs arbitrary: snap)
  case Nil
  then show ?case by simp
next
  case (Cons kh hs)
  obtain k' h' where kh: "kh = (k', h')" by (cases kh)
  show ?case
  proof (cases "(k, h) = (k', h')")
    case True
    with Cons.prems(3) have "map_of (init_csv kh snap) (k @ ''.csv'') = Some [h]"
      by (simp add: kh init_csv_creates)
    then show ?thesis
      by (simp add: fold_init_csv_keeps)
  next
    case False
    with Cons.prems kh have mem: "(k, h) \<in> set hs" and ne: "k' \<noteq> k"
      by (auto simp: image_iff)
    from ne Cons.prems(3) have "map_of (init_csv kh snap) (k @ ''.csv'') = None"
      by (simp add: kh init_csv_other)
    with Cons.IH [OF _ mem] Cons.prems(1) show ?thesis by simp
  qed
qed

lemma distinct_HEADERS: "distinct (map fst HEADERS)"
  by (simp add: HEADERS_def)

lemma init_csvs_empty:
  "init_csvs [] = map (\<lambda>(k, h). (k @ ''.csv'', [h])) HEADERS"
  by (simp add: init_csvs_def init_csv_def HEADERS_def)

lemma day_dirs_iff:
  "(name, snap) \<in> set (day_dirs entries) \<longleftrightarrow> (name, Directory snap) \<in> set entries"
  by (induction entries) (auto simp: day_dirs_def split: node.splits)

lemma sorted_last_greatest:
  "sorted (map f ys) \<Longrightarrow> y \<in> set ys \<Longrightarrow> f y \<le> f (last ys)"
  by (induction ys) (auto split: if_splits)

lemma latest_existing_day_dir_Some:
  assumes "latest_existing_day_dir entries = Some (name, snap)"
  shows "(name, Directory snap) \<in> set entries \<and>
         (\<forall>n s. (n, Directory s) \<in> set entries \<longrightarrow> n \<le> name)"
proof -
  let ?dirs = "sort_key fst (day_dirs entries)"
  from assms have ne: "?dirs \<noteq> []" and last: "last ?dirs = (name, snap)"
    by (auto simp: latest_existing_day_dir_def Let_def split: if_splits)
  from ne have "last ?dirs \<in> set ?dirs" by (rule last_in_set)
  with last have "(name, snap) \<in> set (day_dirs entries)" by simp
  then have "(name, Directory snap) \<in> set entries" by (simp add: day_dirs_iff)
  moreover have "n \<le> name" if "(n, Directory s) \<in> set entries" for n s
  proof -
    from that have "(n, s) \<in> set ?dirs" by (simp add: day_dirs_iff)
    moreover have "sorted (map fst ?dirs)" by (rule sorted_sort_key)
    ultimately have "fst (n, s) \<le> fst (last ?dirs)" by (rule sorted_last_greatest [rotated])
    with last show ?thesis by simp
  qed
  ultimately show ?thesis by blast
qed

lemma latest_existing_day_dir_None:
  assumes "latest_existing_day_dir entries = None"
  shows "(n, Directory s) \<notin> set entries"
proof
  assume "(n, Directory s) \<in> set entries"
  then have "(n, s) \<in> set (day_dirs entries)" by (simp add: day_dirs_iff)
  then have "sort_key fst (day_dirs entries) \<noteq> []"
    by (metis empty_iff list.set(1) set_sort)
  with assms show False by (simp add: latest_existing_day_dir_def Let_def)
qed

lemma update_absent:
  "map_of al k = None \<Longrightarrow> AList.update k v al = al @ [(k, v)]"
  by (induction al) (auto split: if_splits)

text \<open>
  C4. On a date that has no entry in the data directory, \<^verbatim>\<open>get_today_dir\<close> adds one
  directory for the date and changes nothing else. When the data directory holds a
  directory, the new one starts as a copy of the directory whose name is greatest: each
  of its files is in the new directory with the same lines, and each table that had no
  file there gets a file with its header line only. When it holds no directory, the new
  one has exactly the five table files, header line only.
\<close>

theorem get_today_dir_new_day:
  assumes "map_of entries today = None"
  shows "\<exists>new. get_today_dir today entries = Inr (entries @ [(today, Directory new)]) \<and>
     (case latest_existing_day_dir entries of
        Some (name, prior) \<Rightarrow>
          (name, Directory prior) \<in> set entries \<and>
          (\<forall>n s. (n, Directory s) \<in> set entries \<longrightarrow> n \<le> name) \<and>
          (\<forall>f c. map_of prior f = Some c \<longrightarrow> map_of new f = Some c) \<and>
          (\<forall>k h. (k, h) \<in> set HEADERS \<longrightarrow> map_of prior (k @ ''.csv'') = None \<longrightarrow>
                   map_of new (k @ ''.csv'') = Some [h])
      | None \<Rightarrow>
          (\<forall>n s. (n, Directory s) \<notin> set entries) \<and>
          new = map (\<lambda>(k, h). (k @ ''.csv'', [h])) HEADERS)"
proof (cases "latest_existing_day_dir entries")
  case None
  with assms have "get_today_dir today entries = Inr (entries @ [(today, Directory (init_csvs []))])"
    by (simp add: get_today_dir_def Let_def update_absent)
  with None latest_existing_day_dir_None [OF None] show ?thesis
    by (simp add: init_csvs_empty)
next
  case (Some l)
  obtain name prior where l: "l = (name, prior)" by (cases l)
  note latest = latest_existing_day_dir_Some [OF Some [unfolded l]]
  from latest assms have "name \<noteq> today"
    by (auto dest: weak_map_of_SomeI)
  with assms Some l
  have "get_today_dir today entries = Inr (entries @ [(today, Directory (init_csvs prior))])"
    by (simp add: get_today_dir_def Let_def update_absent)
  moreover have "\<forall>f c. map_of prior f = Some c \<longrightarrow> map_of (init_csvs prior) f = Some c"
    by (simp add: init_csvs_def fold_init_csv_keeps)
  moreover have "\<forall>k h. (k, h) \<in> set HEADERS \<longrightarrow> map_of prior (k @ ''.csv'') = None \<longrightarrow>
                   map_of (init_csvs prior) (k @ ''.csv'') = Some [h]"
    by (simp add: init_csvs_def fold_init_csv_creates [OF distinct_HEADERS])
  ultimately show ?thesis
    using latest Some l by simp
qed

theorem get_today_dir_new_day_witness:
  "\<exists>new. get_today_dir ''2024-01-03'' two_days = Inr (two_days @ [(''2024-01-03'', Directory new)])
      \<and> map_of new ''sales.csv'' = Some [[''id''], [''s2'']]
      \<and> map_of new ''branches.csv'' = Some [[''id'', ''name'', ''is_active'']]"
proof -
  have absent: "map_of two_days ''2024-01-03'' = None" by code_simp
  have latest: "latest_existing_day_dir two_days
                  = Some (''2024-01-02'', [(''sales.csv'', [[''id''], [''s2'']])])"
    by code_simp
  have hdr: "(''branches'', [''id'', ''name'', ''is_active'']) \<in> set HEADERS" by code_simp
  from get_today_dir_new_day [OF absent] obtain new
    where run: "get_today_dir ''2024-01-03'' two_days
                  = Inr (two_days @ [(''2024-01-03'', Directory new)])"
      and rest: "case latest_existing_day_dir two_days of
        Some (name, prior) \<Rightarrow>
          (name, Directory prior) \<in> set two_days \<and>
          (\<forall>n s. (n, Directory s) \<in> set two_days \<longrightarrow> n \<le> name) \<and>
          (\<forall>f c. map_of prior f = Some c \<longrightarrow> map_of new f = Some c) \<and>
          (\<forall>k h. (k, h) \<in> set HEADERS \<longrightarrow> map_of prior (k @ ''.csv'') = None \<longrightarrow>
                   map_of new (k @ ''.csv'') = Some [h])
      | None \<Rightarrow>
          (\<forall>n s. (n, Directory s) \<notin> set two_days) \<and>
          new = map (\<lambda>(k, h). (k @ ''.csv'', [h])) HEADERS"
    by blast
  from rest have keep: "\<forall>f c. map_of [(''sales.csv'', [[''id''], [''s2'']])] f = Some c
                   \<longrightarrow> map_of new f = Some c"
    and fresh: "\<forall>k h. (k, h) \<in> set HEADERS \<longrightarrow>
                    map_of [(''sales.csv'', [[''id''], [''s2'']])] (k @ ''.csv'') = None \<longrightarrow>
                    map_of new (k @ ''.csv'') = Some [h]"
    unfolding latest option.case prod.case by blast+
  have "map_of [(''sales.csv'', [[''id''], [''s2'']])] ''sales.csv'' = Some [[''id''], [''s2'']]"
    by simp
  with keep have sales: "map_of new ''sales.csv'' = Some [[''id''], [''s2'']]"
    by blast
  have "map_of [(''sales.csv'', [[''id''], [''s2'']])] (''branches'' @ ''.csv'') = None"
    by simp
  with fresh hdr have "map_of new (''branches'' @ ''.csv'') = Some [[''id'', ''name'', ''is_active'']]"
    by blast
  then have "map_of new ''branches.csv'' = Some [[''id'', ''name'', ''is_active'']]"
    by simp
  with run sales show ?thesis by blast
qed

end
